theory Spec2Isabelle
  imports Main "HOL-Library.AList"
begin

section \<open>Process environment\<close>

text \<open>
  \<^verbatim>\<open>process.env\<close> after \<^verbatim>\<open>require("dotenv").config()\<close>. A variable is a string or
  undefined. The handlers read \<^verbatim>\<open>process.env.JWT_SECRET\<close> at every call, so the
  environment is a parameter of each of them.
\<close>

record env =
  JWT_SECRET :: "string option"
  FIREBASE_SERVICE_ACCOUNT :: "string option"
  PORT :: "string option"

text \<open>JavaScript truthiness of a value that is a string or undefined.\<close>

fun truthy :: "string option \<Rightarrow> bool" where
  "truthy None = False"
| "truthy (Some s) = (s \<noteq> [])"

section \<open>Signed tokens\<close>

text \<open>
  Modelled from the spec: \<^verbatim>\<open>jwt.sign\<close> and \<^verbatim>\<open>jwt.verify\<close> of the package
  \<^verbatim>\<open>jsonwebtoken\<close>, which \<^verbatim>\<open>server.js\<close> requires and which is not under src/.
  The spec's Token Service signs a payload \<open>{identity}\<close> with a secret and an expiry, and
  verifies signature and expiry, failing with a malformed-token error or an expiry error.
  The behaviour is that of version 9 of the package, which refuses unsigned tokens unless
  asked for them. Tokens are symbolic, as messages are in protocol verification: a compact
  serialisation that decodes is \<open>JWS alg payload signature\<close>, every other string is
  \<open>Text s\<close>; the
  HMAC of header and payload under a key is the free constructor \<open>HMAC\<close>, so that two
  signatures are equal exactly when algorithm, key and payload are (no collisions, no
  guessing), and any other signature segment is \<open>Bytes s\<close> (\<open>Bytes []\<close> is the empty
  segment of an unsigned token). Payloads carry the claims this server writes and reads:
  \<open>email\<close>, \<open>iat\<close> and \<open>exp\<close>, each possibly undefined and of its proper type
  (other registered claims, such as \<open>nbf\<close>, are not modelled). Times are integers;
  \<open>now\<close> is \<^verbatim>\<open>Date.now()\<close> in milliseconds.
\<close>

datatype alg = HS256 | HS384 | HS512 | RS256 | ALG_none

record payload =
  email :: "string option"
  iat :: "int option"
  exp :: "int option"

datatype signature = HMAC alg string payload | Bytes string

datatype token = Text string | JWS alg payload signature

text \<open>What \<^verbatim>\<open>jsonwebtoken\<close> throws, or passes to a callback as \<^verbatim>\<open>err\<close>.\<close>

datatype exn = Error string | JsonWebTokenError string | TokenExpiredError string

text \<open>
  Modelled from the spec: the timestamp of \<^verbatim>\<open>jwt.sign\<close>, not under src/:
  \<^verbatim>\<open>payload.iat || Math.floor(Date.now() / 1000)\<close>.
\<close>

definition issued_at :: "payload \<Rightarrow> int \<Rightarrow> int" where
  "issued_at pl now =
     (case iat pl of
        None \<Rightarrow> now div 1000
      | Some t \<Rightarrow> if t = 0 then now div 1000 else t)"

text \<open>
  Modelled from the spec: \<^verbatim>\<open>jwt.sign\<close> of \<^verbatim>\<open>jsonwebtoken\<close>, not under src/.
  \<^verbatim>\<open>jwt.sign(payload, secretOrPrivateKey, {expiresIn})\<close> without a callback: it throws
  when the secret is falsy and when the payload already has \<open>exp\<close>; otherwise the
  payload gets \<open>iat\<close>, the timestamp, and \<open>exp = timestamp + expiresIn\<close>, and the
  header algorithm is the default HS256. \<open>expiresIn\<close> is the option converted to
  seconds.
\<close>

definition jwt_sign :: "payload \<Rightarrow> string option \<Rightarrow> int \<Rightarrow> int \<Rightarrow> exn + token" where
  "jwt_sign pl secretOrPrivateKey expiresIn now =
     (case secretOrPrivateKey of
        None \<Rightarrow> Inl (Error ''secretOrPrivateKey must have a value'')
      | Some key \<Rightarrow>
          if key = [] then Inl (Error ''secretOrPrivateKey must have a value'')
          else if exp pl \<noteq> None then
            Inl (Error ''Bad options.expiresIn option the payload already has an exp property.'')
          else
            let timestamp = issued_at pl now;
                signed = pl\<lparr>iat := Some timestamp, exp := Some (timestamp + expiresIn)\<rparr>
            in Inr (JWS HS256 signed (HMAC HS256 key signed)))"

text \<open>
  Modelled from the spec: \<^verbatim>\<open>jwt.verify\<close> of \<^verbatim>\<open>jsonwebtoken\<close>, not under src/.
  \<^verbatim>\<open>jwt.verify(token, secretOrPublicKey, callback)\<close>: the value is what the callback
  receives, \<open>Inl err\<close> or \<open>Inr decoded\<close>. The checks are in the order of the library:
  the string, its three segments, the presence of a signature and of a secret, the
  algorithm (a secret admits HS256, HS384 and HS512), the signature, then the expiry
  against \<^verbatim>\<open>Math.floor(Date.now() / 1000)\<close>.
\<close>

definition jwt_verify :: "token \<Rightarrow> string option \<Rightarrow> int \<Rightarrow> exn + payload" where
  "jwt_verify jwtString secretOrPublicKey now =
     (case jwtString of
        Text s \<Rightarrow>
          if s = [] then Inl (JsonWebTokenError ''jwt must be provided'')
          else if length (filter (\<lambda>c. c = CHR ''.'') s) \<noteq> 2
            then Inl (JsonWebTokenError ''jwt malformed'')
          else Inl (JsonWebTokenError ''invalid token'')
      | JWS a pl sg \<Rightarrow>
          let hasSignature = (sg \<noteq> Bytes []) in
          if \<not> hasSignature \<and> truthy secretOrPublicKey
            then Inl (JsonWebTokenError ''jwt signature is required'')
          else if hasSignature \<and> \<not> truthy secretOrPublicKey
            then Inl (JsonWebTokenError ''secret or public key must be provided'')
          else if \<not> hasSignature
            then Inl (JsonWebTokenError ''please specify none in algorithms to verify unsigned tokens'')
          else if a \<noteq> HS256 \<and> a \<noteq> HS384 \<and> a \<noteq> HS512
            then Inl (JsonWebTokenError ''invalid algorithm'')
          else (case secretOrPublicKey of
                  None \<Rightarrow> Inl (JsonWebTokenError ''secret or public key must be provided'')
                | Some key \<Rightarrow>
                    if sg \<noteq> HMAC a key pl
                      then Inl (JsonWebTokenError ''invalid signature'')
                    else (case exp pl of
                            None \<Rightarrow> Inr pl
                          | Some e \<Rightarrow>
                              if now div 1000 \<ge> e then Inl (TokenExpiredError ''jwt expired'')
                              else Inr pl)))"

subsection \<open>JWT helpers of server.js\<close>

text \<open>\<^verbatim>\<open>expiresIn: "15m"\<close> and \<^verbatim>\<open>expiresIn: "7d"\<close>, in seconds.\<close>

definition expiresIn_15m :: int where
  "expiresIn_15m = 15 * 60"

definition expiresIn_7d :: int where
  "expiresIn_7d = 7 * 24 * 60 * 60"

definition generateAccessToken :: "env \<Rightarrow> int \<Rightarrow> payload \<Rightarrow> exn + token" where
  "generateAccessToken e now user = jwt_sign user (JWT_SECRET e) expiresIn_15m now"

definition generateRefreshToken :: "env \<Rightarrow> int \<Rightarrow> payload \<Rightarrow> exn + token" where
  "generateRefreshToken e now user = jwt_sign user (JWT_SECRET e) expiresIn_7d now"

text \<open>The object literal \<^verbatim>\<open>{ email }\<close> that login and refresh pass to the helpers.\<close>

definition email_payload :: "string option \<Rightarrow> payload" where
  "email_payload i = \<lparr>email = i, iat = None, exp = None\<rparr>"

section \<open>Requests and responses\<close>

text \<open>
  What the handlers read of an Express request: the two body fields (undefined when the
  JSON body lacks them), the cookie \<^verbatim>\<open>refreshToken\<close> as \<^verbatim>\<open>cookie-parser\<close> gives it,
  the bearer token of the authorization header, and \<^verbatim>\<open>req.user\<close>, which the session
  middleware sets.
\<close>

record request =
  body_email :: "string option"
  body_password :: "string option"
  cookie_refreshToken :: "token option"
  bearer_token :: "token option"
  user :: "payload option"

record cookie_options =
  httpOnly :: bool
  secure :: bool
  sameSite :: string
  maxAge :: "int option"

record stats_body =
  totalUsers :: int
  verifiedUsers :: int
  unverifiedUsers :: int
  systemStatus :: string
  security :: string

datatype body =
    Json_msg string
  | Json_accessToken token
  | Json_dashboard string "string option"
  | Json_stats stats_body
  | Status_text string

text \<open>
  A response: the status, the body and the cookies set by \<^verbatim>\<open>res.cookie\<close>, each with
  its name, value and options.
\<close>

record response =
  status :: nat
  body :: body
  set_cookie :: "(string \<times> token \<times> cookie_options) list"

text \<open>\<^verbatim>\<open>res.status(code).json(b)\<close>; \<^verbatim>\<open>res.json(b)\<close> is \<open>json 200 b\<close>.\<close>

definition json :: "nat \<Rightarrow> body \<Rightarrow> response" where
  "json code b = \<lparr>status = code, body = b, set_cookie = []\<rparr>"

text \<open>
  \<^verbatim>\<open>res.sendStatus(code)\<close> sends the status with its reason phrase as the body; the
  handlers use it with 401 and 403 only.
\<close>

definition sendStatus :: "nat \<Rightarrow> response" where
  "sendStatus code =
     \<lparr>status = code,
      body = Status_text (if code = 401 then ''Unauthorized''
                          else if code = 403 then ''Forbidden'' else []),
      set_cookie = []\<rparr>"

text \<open>
  An exception that leaves a synchronous handler reaches the default error handler of
  Express, which answers 500.
\<close>

definition uncaught :: response where
  "uncaught = \<lparr>status = 500, body = Status_text ''Internal Server Error'', set_cookie = []\<rparr>"

section \<open>POST /api/refresh\<close>

text \<open>
  \<^verbatim>\<open>!token\<close> holds for an undefined cookie and for the empty string. The callback of
  \<^verbatim>\<open>jwt.verify\<close> runs synchronously, so an exception of \<^verbatim>\<open>generateAccessToken\<close>
  inside it leaves the handler.
\<close>

definition refresh :: "env \<Rightarrow> int \<Rightarrow> request \<Rightarrow> response" where
  "refresh e now req =
     (case cookie_refreshToken req of
        None \<Rightarrow> sendStatus 401
      | Some token \<Rightarrow>
          if token = Text [] then sendStatus 401
          else (case jwt_verify token (JWT_SECRET e) now of
                  Inl err \<Rightarrow> sendStatus 403
                | Inr decoded \<Rightarrow>
                    (case generateAccessToken e now (email_payload (email decoded)) of
                       Inl err \<Rightarrow> uncaught
                     | Inr accessToken \<Rightarrow> json 200 (Json_accessToken accessToken))))"

section \<open>Session middleware and protected routes\<close>

text \<open>
  Modelled from the spec: the module \<^verbatim>\<open>./middleware/auth\<close>, which \<^verbatim>\<open>server.js\<close>
  requires and which is not under src/. The spec's session middleware extracts the
  bearer token (absent: Unauthenticated, HTTP 401), verifies it with the Token Service
  (failure: Forbidden, HTTP 403), and on success attaches the decoded identity to the
  request and passes control to the handler.
\<close>

datatype rejection = Unauthenticated | Forbidden

fun http_status :: "rejection \<Rightarrow> nat" where
  "http_status Unauthenticated = 401"
| "http_status Forbidden = 403"

text \<open>
  Modelled from the spec: the function that \<^verbatim>\<open>./middleware/auth\<close> exports, not under
  src/. Extract, verify, admit.
\<close>

definition auth :: "env \<Rightarrow> int \<Rightarrow> request \<Rightarrow> rejection + request" where
  "auth e now req =
     (case bearer_token req of
        None \<Rightarrow> Inl Unauthenticated
      | Some token \<Rightarrow>
          (case jwt_verify token (JWT_SECRET e) now of
             Inl err \<Rightarrow> Inl Forbidden
           | Inr decoded \<Rightarrow> Inr (req\<lparr>user := Some decoded\<rparr>)))"

text \<open>
  \<^verbatim>\<open>app.get(path, auth, handler)\<close>: the handler runs on the request the middleware
  passes on, and does not run when the middleware rejects.
\<close>

definition protected :: "env \<Rightarrow> int \<Rightarrow> (request \<Rightarrow> 'a) \<Rightarrow> request \<Rightarrow> rejection + 'a" where
  "protected e now handler req =
     (case auth e now req of
        Inl r \<Rightarrow> Inl r
      | Inr req' \<Rightarrow> Inr (handler req'))"

text \<open>
  The handler of GET /api/dashboard; \<^verbatim>\<open>req.user.email\<close> throws when \<^verbatim>\<open>req.user\<close>
  is undefined.
\<close>

definition dashboard :: "request \<Rightarrow> response" where
  "dashboard req =
     (case user req of
        None \<Rightarrow> uncaught
      | Some u \<Rightarrow> json 200 (Json_dashboard ''Welcome to dashboard'' (email u)))"

definition dashboard_route :: "env \<Rightarrow> int \<Rightarrow> request \<Rightarrow> rejection + response" where
  "dashboard_route e now req = protected e now dashboard req"

section \<open>Startup\<close>

text \<open>
  \<^verbatim>\<open>firebase.js\<close> runs when \<^verbatim>\<open>server.js\<close> requires it. \<open>cert_ok\<close> says whether
  \<^verbatim>\<open>JSON.parse\<close>, \<^verbatim>\<open>admin.credential.cert\<close> and \<^verbatim>\<open>admin.initializeApp\<close> accept the
  string; they throw otherwise.
\<close>

definition firebase :: "(string \<Rightarrow> bool) \<Rightarrow> env \<Rightarrow> exn + unit" where
  "firebase cert_ok e =
     (if \<not> truthy (FIREBASE_SERVICE_ACCOUNT e) then
        Inl (Error ''FIREBASE_SERVICE_ACCOUNT is missing'')
      else (case FIREBASE_SERVICE_ACCOUNT e of
              None \<Rightarrow> Inl (Error ''FIREBASE_SERVICE_ACCOUNT is missing'')
            | Some serviceAccount \<Rightarrow>
                if cert_ok serviceAccount then Inr ()
                else Inl (Error ''invalid service account'')))"

text \<open>\<^verbatim>\<open>process.env.PORT || 5000\<close>.\<close>

datatype port = Port_env string | Port_default nat

definition listen_port :: "env \<Rightarrow> port" where
  "listen_port e =
     (case PORT e of
        None \<Rightarrow> Port_default 5000
      | Some p \<Rightarrow> if p = [] then Port_default 5000 else Port_env p)"

text \<open>
  The top level of \<^verbatim>\<open>server.js\<close>: the module either throws while loading
  \<^verbatim>\<open>./firebase\<close> or reaches \<^verbatim>\<open>app.listen(PORT)\<close>. Nothing at the top level reads
  \<^verbatim>\<open>process.env.JWT_SECRET\<close>.
\<close>

definition server :: "(string \<Rightarrow> bool) \<Rightarrow> env \<Rightarrow> exn + port" where
  "server cert_ok e =
     (case firebase cert_ok e of
        Inl err \<Rightarrow> Inl err
      | Inr admin \<Rightarrow> Inr (listen_port e))"

section \<open>Credential Store and Password Verifier\<close>

text \<open>
  Modelled from the spec: the Firestore client of \<^verbatim>\<open>firebase-admin\<close> (the spec's
  Credential Store, lookup by identity and upsert), which is not under src/. The
  collection \<^verbatim>\<open>users\<close> is a list of documents with their ids, in the order a query
  returns them; a call rejects when the store cannot be reached, and
  \<^verbatim>\<open>where("email", "==", undefined)\<close> throws.
  Field names of the document carry the prefix \<open>doc\<close>.
\<close>

record user_doc =
  doc_email :: string
  doc_password :: string
  doc_role :: string
  doc_status :: string
  doc_createdAt :: int

record firestore =
  users_collection :: "(string \<times> user_doc) list"
  reachable :: bool

text \<open>
  Modelled from the spec: the lookup by identity of the Credential Store, not under src/.
  \<^verbatim>\<open>db.collection("users").where("email", "==", email).get()\<close>: the matching documents.
\<close>

definition where_email :: "firestore \<Rightarrow> string option \<Rightarrow> exn + user_doc list" where
  "where_email db value =
     (case value of
        None \<Rightarrow> Inl (Error ''Cannot use undefined as a Firestore value'')
      | Some v \<Rightarrow>
          if \<not> reachable db then Inl (Error ''UNAVAILABLE'')
          else Inr (filter (\<lambda>d. doc_email d = v) (map snd (users_collection db))))"

text \<open>
  Modelled from the spec: the upsert of the Credential Store, not under src/.
  \<^verbatim>\<open>db.collection("users").doc(id).set(data)\<close>: creates or overwrites the document.
\<close>

definition doc_set :: "firestore \<Rightarrow> string \<Rightarrow> user_doc \<Rightarrow> exn + firestore" where
  "doc_set db ident data =
     (if \<not> reachable db then Inl (Error ''UNAVAILABLE'')
      else Inr (db\<lparr>users_collection := AList.update ident data (users_collection db)\<rparr>))"

text \<open>
  \<^verbatim>\<open>bcryptjs\<close> is a parameter: \<open>hash s rounds\<close> is the hash that
  \<^verbatim>\<open>bcrypt.hash\<close> produces (with the salt it draws), \<open>compare s h\<close> the boolean of
  \<^verbatim>\<open>bcrypt.compare\<close>. Both reject when the first argument is not a string.
\<close>

record bcryptjs =
  hash :: "string \<Rightarrow> nat \<Rightarrow> string"
  compare :: "string \<Rightarrow> string \<Rightarrow> bool"

definition bcrypt_hash :: "bcryptjs \<Rightarrow> string option \<Rightarrow> nat \<Rightarrow> exn + string" where
  "bcrypt_hash bcrypt s rounds =
     (case s of
        None \<Rightarrow> Inl (Error ''Illegal arguments: undefined, number'')
      | Some pw \<Rightarrow> Inr (hash bcrypt pw rounds))"

definition bcrypt_compare :: "bcryptjs \<Rightarrow> string option \<Rightarrow> string \<Rightarrow> exn + bool" where
  "bcrypt_compare bcrypt s h =
     (case s of
        None \<Rightarrow> Inl (Error ''Illegal arguments: undefined, string'')
      | Some pw \<Rightarrow> Inr (compare bcrypt pw h))"

section \<open>POST /api/register\<close>

text \<open>
  The handler returns the response and the store after it. Every exception inside the
  \<^verbatim>\<open>try\<close> block is answered with 500; \<^verbatim>\<open>new Date()\<close> is \<open>now\<close>.
\<close>

definition register :: "bcryptjs \<Rightarrow> int \<Rightarrow> firestore \<Rightarrow> request \<Rightarrow> response \<times> firestore" where
  "register bcrypt now db req =
     (case where_email db (body_email req) of
        Inl err \<Rightarrow> (json 500 (Json_msg ''Register failed''), db)
      | Inr snapshot \<Rightarrow>
          if snapshot \<noteq> [] then (json 400 (Json_msg ''User exists''), db)
          else (case bcrypt_hash bcrypt (body_password req) 10 of
                  Inl err \<Rightarrow> (json 500 (Json_msg ''Register failed''), db)
                | Inr hashed \<Rightarrow>
                    (case body_email req of
                       None \<Rightarrow> (json 500 (Json_msg ''Register failed''), db)
                     | Some ident \<Rightarrow>
                         (case doc_set db ident
                                 \<lparr>doc_email = ident, doc_password = hashed,
                                  doc_role = ''client'', doc_status = ''active'',
                                  doc_createdAt = now\<rparr> of
                            Inl err \<Rightarrow> (json 500 (Json_msg ''Register failed''), db)
                          | Inr db' \<Rightarrow> (json 200 (Json_msg ''Registered successfully''), db')))))"

section \<open>POST /api/login\<close>

text \<open>The options of the cookie \<^verbatim>\<open>refreshToken\<close>; \<open>maxAge\<close> is in milliseconds.\<close>

definition refresh_cookie_options :: cookie_options where
  "refresh_cookie_options =
     \<lparr>httpOnly = True, secure = True, sameSite = ''none'',
      maxAge = Some (7 * 24 * 60 * 60 * 1000)\<rparr>"

definition login :: "bcryptjs \<Rightarrow> env \<Rightarrow> int \<Rightarrow> firestore \<Rightarrow> request \<Rightarrow> response" where
  "login bcrypt e now db req =
     (case where_email db (body_email req) of
        Inl err \<Rightarrow> json 500 (Json_msg ''Login failed'')
      | Inr snapshot \<Rightarrow>
          (case snapshot of
             [] \<Rightarrow> json 400 (Json_msg ''Invalid credentials'')
           | found # rest \<Rightarrow>
               (case bcrypt_compare bcrypt (body_password req) (doc_password found) of
                  Inl err \<Rightarrow> json 500 (Json_msg ''Login failed'')
                | Inr match \<Rightarrow>
                    if \<not> match then json 400 (Json_msg ''Invalid credentials'')
                    else (case generateAccessToken e now (email_payload (body_email req)) of
                            Inl err \<Rightarrow> json 500 (Json_msg ''Login failed'')
                          | Inr accessToken \<Rightarrow>
                              (case generateRefreshToken e now (email_payload (body_email req)) of
                                 Inl err \<Rightarrow> json 500 (Json_msg ''Login failed'')
                               | Inr refreshToken \<Rightarrow>
                                   \<lparr>status = 200, body = Json_accessToken accessToken,
                                    set_cookie =
                                      [(''refreshToken'', refreshToken,
                                        refresh_cookie_options)]\<rparr>)))))"

section \<open>GET /api/stats\<close>

text \<open>
  The Identity Directory is a parameter: \<open>listUsers maxResults pageToken\<close> is what
  \<^verbatim>\<open>admin.auth().listUsers\<close> resolves to, or the error it rejects with. Nothing is
  assumed of how it pages, so the \<^verbatim>\<open>do ... while (nextPageToken)\<close> loop may run for
  ever: the loop is a partial function and \<open>None\<close> is the run that never answers.
\<close>

record user_record =
  emailVerified :: bool

record list_users_result =
  users :: "user_record list"
  pageToken :: "string option"

type_synonym directory = "nat \<Rightarrow> string option \<Rightarrow> exn + list_users_result"

text \<open>The body of \<^verbatim>\<open>forEach\<close> on the pair of the counters \<^verbatim>\<open>total\<close> and \<^verbatim>\<open>verified\<close>.\<close>

fun count_user :: "user_record \<Rightarrow> int \<times> int \<Rightarrow> int \<times> int" where
  "count_user u (n_total, n_verified) =
     (n_total + 1, if emailVerified u then n_verified + 1 else n_verified)"

partial_function (option) stats_loop ::
  "directory \<Rightarrow> string option \<Rightarrow> int \<times> int \<Rightarrow> (exn + int \<times> int) option" where
  "stats_loop listUsers nextPageToken counters =
     (case listUsers 1000 nextPageToken of
        Inl err \<Rightarrow> Some (Inl err)
      | Inr result \<Rightarrow>
          if truthy (pageToken result)
          then stats_loop listUsers (pageToken result) (fold count_user (users result) counters)
          else Some (Inr (fold count_user (users result) counters)))"

definition stats_response :: "exn + int \<times> int \<Rightarrow> response" where
  "stats_response r =
     (case r of
        Inl err \<Rightarrow> json 500 (Json_msg ''Failed to fetch stats'')
      | Inr (n_total, n_verified) \<Rightarrow>
          json 200 (Json_stats
            \<lparr>totalUsers = n_total, verifiedUsers = n_verified,
             unverifiedUsers = n_total - n_verified,
             systemStatus = ''Active'', security = ''Protected''\<rparr>))"

definition stats :: "directory \<Rightarrow> response option" where
  "stats listUsers = map_option stats_response (stats_loop listUsers None (0, 0))"

text \<open>The later revision of the server puts the same handler behind the middleware.\<close>

definition stats_protected ::
  "env \<Rightarrow> int \<Rightarrow> directory \<Rightarrow> request \<Rightarrow> (rejection + response) option" where
  "stats_protected e now listUsers req =
     (case auth e now req of
        Inl r \<Rightarrow> Some (Inl r)
      | Inr req' \<Rightarrow> map_option Inr (stats listUsers))"

section \<open>Properties of a token\<close>

text \<open>
  The words of the claims about a token, as executable predicates: it is parseable, it
  carries a valid signature under the given secret (an HMAC algorithm, the secret
  non-empty, the signature that of its own header and payload), its expiry has elapsed
  at \<open>now\<close>, and the identity it encodes.
\<close>

fun parseable :: "token \<Rightarrow> bool" where
  "parseable (Text s) = False"
| "parseable (JWS a pl sg) = True"

fun signed_with :: "string option \<Rightarrow> token \<Rightarrow> bool" where
  "signed_with secret (Text s) = False"
| "signed_with None (JWS a pl sg) = False"
| "signed_with (Some key) (JWS a pl sg) =
     (key \<noteq> [] \<and> (a = HS256 \<or> a = HS384 \<or> a = HS512) \<and> sg = HMAC a key pl)"

fun expiry_elapsed :: "int \<Rightarrow> token \<Rightarrow> bool" where
  "expiry_elapsed now (Text s) = False"
| "expiry_elapsed now (JWS a pl sg) =
     (case exp pl of None \<Rightarrow> False | Some e \<Rightarrow> e \<le> now div 1000)"


text \<open>
  A token of the refresh class under a secret: the algorithm is HS256, the signature is
  valid under the secret, and the expiry is 7 days after \<open>iat\<close>. These are the tokens
  that \<open>generateRefreshToken\<close> can return.
\<close>

fun refresh_token_of :: "string option \<Rightarrow> token \<Rightarrow> bool" where
  "refresh_token_of secret (Text s) = False"
| "refresh_token_of secret (JWS a pl sg) =
     (a = HS256 \<and> signed_with secret (JWS a pl sg) \<and>
      (case iat pl of None \<Rightarrow> False | Some t \<Rightarrow> exp pl = Some (t + expiresIn_7d)))"

section \<open>Token Service\<close>

subsection \<open>Signing and verifying, case by case\<close>

lemma jwt_sign_ok:
  "key \<noteq> [] \<Longrightarrow> exp pl = None \<Longrightarrow>
   jwt_sign pl (Some key) span now =
     Inr (JWS HS256 (pl\<lparr>iat := Some (issued_at pl now), exp := Some (issued_at pl now + span)\<rparr>)
            (HMAC HS256 key
               (pl\<lparr>iat := Some (issued_at pl now), exp := Some (issued_at pl now + span)\<rparr>)))"
  by (simp add: jwt_sign_def Let_def)

lemma jwt_sign_no_secret:
  "\<not> truthy secret \<Longrightarrow>
   jwt_sign pl secret span now = Inl (Error ''secretOrPrivateKey must have a value'')"
  by (cases secret) (simp_all add: jwt_sign_def)

lemma jwt_sign_exp_set:
  "truthy secret \<Longrightarrow> exp pl \<noteq> None \<Longrightarrow>
   jwt_sign pl secret span now =
     Inl (Error ''Bad options.expiresIn option the payload already has an exp property.'')"
  by (cases secret) (simp_all add: jwt_sign_def)

lemma issued_at_email_payload: "issued_at (email_payload i) now = now div 1000"
  by (simp add: issued_at_def email_payload_def)

lemma jwt_verify_signed:
  "key \<noteq> [] \<Longrightarrow> a = HS256 \<or> a = HS384 \<or> a = HS512 \<Longrightarrow>
   jwt_verify (JWS a pl (HMAC a key pl)) (Some key) now =
     (case exp pl of None \<Rightarrow> Inr pl
      | Some e \<Rightarrow> if e \<le> now div 1000 then Inl (TokenExpiredError ''jwt expired'') else Inr pl)"
  by (auto simp add: jwt_verify_def split: option.splits)

lemma jwt_verify_Text:
  "\<exists>m. jwt_verify (Text s) secret now = Inl (JsonWebTokenError m)"
  by (simp add: jwt_verify_def)

lemma jwt_verify_unsigned:
  "\<not> signed_with secret (JWS a pl sg) \<Longrightarrow>
   \<exists>m. jwt_verify (JWS a pl sg) secret now = Inl (JsonWebTokenError m)"
  by (cases secret) (auto simp add: jwt_verify_def Let_def)

lemma jwt_verify_valid:
  "signed_with secret (JWS a pl sg) \<Longrightarrow>
   jwt_verify (JWS a pl sg) secret now =
     (if expiry_elapsed now (JWS a pl sg) then Inl (TokenExpiredError ''jwt expired'')
      else Inr pl)"
  by (cases secret) (auto simp add: jwt_verify_def Let_def split: option.splits)

lemma jwt_verify_Inr:
  "jwt_verify t secret now = Inr decoded \<longleftrightarrow>
     (\<exists>a sg. t = JWS a decoded sg \<and> signed_with secret t \<and> \<not> expiry_elapsed now t)"
proof (cases t)
  case (Text s)
  then show ?thesis using jwt_verify_Text [of s secret now] by auto
next
  case (JWS a pl sg)
  show ?thesis
  proof (cases "signed_with secret t")
    case True
    then show ?thesis using JWS jwt_verify_valid [of secret a pl sg now] by auto
  next
    case False
    then show ?thesis using JWS jwt_verify_unsigned [of secret a pl sg now] by auto
  qed
qed

lemma jwt_verify_must_be_provided:
  "jwt_verify t secret now = Inl (JsonWebTokenError ''jwt must be provided'') \<longleftrightarrow> t = Text []"
  by (cases t; cases secret) (auto simp add: jwt_verify_def Let_def split: option.splits)

subsection \<open>Round trip\<close>

text \<open>
  Claim C1. For every identity \<open>i\<close>, when the signing secret is set, the token that
  \<open>generateAccessToken\<close> makes of \<open>{email: i}\<close> at time \<open>now\<close> verifies under the
  same secret at every time \<open>now'\<close> before its expiry, 15 minutes after the second of
  issuance (so at \<open>now\<close> itself), and the decoded payload carries exactly \<open>i\<close>.
\<close>

theorem verify_issued_access_token:
  assumes "truthy (JWT_SECRET e)" and "now' div 1000 < now div 1000 + 15 * 60"
  shows "\<exists>t decoded.
           generateAccessToken e now (email_payload (Some i)) = Inr t \<and>
           jwt_verify t (JWT_SECRET e) now' = Inr decoded \<and>
           email decoded = Some i"
proof -
  from assms(1) obtain key where k: "JWT_SECRET e = Some key" "key \<noteq> []"
    by (cases "JWT_SECRET e") auto
  show ?thesis
    using k assms(2)
    by (simp add: generateAccessToken_def email_payload_def expiresIn_15m_def
        jwt_sign_ok jwt_verify_signed issued_at_def)
qed

theorem verify_issued_access_token_witness:
  "truthy (JWT_SECRET \<lparr>JWT_SECRET = Some ''s3cret'', FIREBASE_SERVICE_ACCOUNT = None, PORT = None\<rparr>)
   \<and> (\<exists>t decoded.
        generateAccessToken
          \<lparr>JWT_SECRET = Some ''s3cret'', FIREBASE_SERVICE_ACCOUNT = None, PORT = None\<rparr>
          1700000000123 (email_payload (Some ''a@x.com'')) = Inr t \<and>
        jwt_verify t (Some ''s3cret'') 1700000000123 = Inr decoded \<and>
        email decoded = Some ''a@x.com'')"
  using verify_issued_access_token
    [of "\<lparr>JWT_SECRET = Some ''s3cret'', FIREBASE_SERVICE_ACCOUNT = None, PORT = None\<rparr>"
        1700000000123 1700000000123 "''a@x.com''"]
  by simp

subsection \<open>Typed failures\<close>

text \<open>
  Claim C2. \<open>jwt_verify\<close> answers every token, secret and time with a decoded payload
  or with one of the two error types of the library, never with a thrown \<open>Error\<close>.
  The error is the expiry error exactly when the token is validly signed under the
  secret and its expiry has elapsed, and the malformed-token error exactly when the token
  is unparseable or not validly signed under the secret; so an expired validly signed
  token is never reported malformed.
\<close>

theorem jwt_verify_typed_failure:
  "((\<exists>decoded. jwt_verify t secret now = Inr decoded) \<or>
    (\<exists>m. jwt_verify t secret now = Inl (TokenExpiredError m)) \<or>
    (\<exists>m. jwt_verify t secret now = Inl (JsonWebTokenError m)))
   \<and> ((\<exists>m. jwt_verify t secret now = Inl (TokenExpiredError m)) \<longleftrightarrow>
        signed_with secret t \<and> expiry_elapsed now t)
   \<and> ((\<exists>m. jwt_verify t secret now = Inl (JsonWebTokenError m)) \<longleftrightarrow>
        \<not> parseable t \<or> \<not> signed_with secret t)
   \<and> ((\<exists>decoded. jwt_verify t secret now = Inr decoded) \<longleftrightarrow>
        signed_with secret t \<and> \<not> expiry_elapsed now t)"
proof (cases t)
  case (Text s)
  then show ?thesis using jwt_verify_Text [of s secret now] by auto
next
  case (JWS a pl sg)
  show ?thesis
  proof (cases "signed_with secret t")
    case True
    then show ?thesis using JWS jwt_verify_valid [of secret a pl sg now] by simp
  next
    case False
    then show ?thesis using JWS jwt_verify_unsigned [of secret a pl sg now] by auto
  qed
qed

text \<open>
  At concrete inputs: a token signed with \<open>s3cret\<close> whose expiry (second 1900) has
  elapsed at second 2000 gives the expiry error, and the same token checked against
  another secret gives the malformed-token error.
\<close>

theorem jwt_verify_typed_failure_witness:
  "(\<exists>m. jwt_verify
          (JWS HS256 \<lparr>email = Some ''a@x.com'', iat = Some 1000, exp = Some 1900\<rparr>
             (HMAC HS256 ''s3cret'' \<lparr>email = Some ''a@x.com'', iat = Some 1000, exp = Some 1900\<rparr>))
          (Some ''s3cret'') 2000000 = Inl (TokenExpiredError m))
   \<and> (\<exists>m. jwt_verify
          (JWS HS256 \<lparr>email = Some ''a@x.com'', iat = Some 1000, exp = Some 1900\<rparr>
             (HMAC HS256 ''s3cret'' \<lparr>email = Some ''a@x.com'', iat = Some 1000, exp = Some 1900\<rparr>))
          (Some ''other'') 2000000 = Inl (JsonWebTokenError m))"
  using jwt_verify_typed_failure
    [of "JWS HS256 \<lparr>email = Some ''a@x.com'', iat = Some 1000, exp = Some 1900\<rparr>
           (HMAC HS256 ''s3cret'' \<lparr>email = Some ''a@x.com'', iat = Some 1000, exp = Some 1900\<rparr>)"
        "Some ''s3cret''" 2000000]
    jwt_verify_typed_failure
    [of "JWS HS256 \<lparr>email = Some ''a@x.com'', iat = Some 1000, exp = Some 1900\<rparr>
           (HMAC HS256 ''s3cret'' \<lparr>email = Some ''a@x.com'', iat = Some 1000, exp = Some 1900\<rparr>)"
        "Some ''other''" 2000000]
  by simp

subsection \<open>The two token classes\<close>

text \<open>
  Claim C7. \<open>generateAccessToken\<close> and \<open>generateRefreshToken\<close>, on the same
  environment, time and payload, fail together with the same error or both return a
  token: both tokens have the algorithm HS256 and a signature under the one secret
  \<open>JWT_SECRET\<close>, both are validly signed for \<open>jwt_verify\<close> under that secret, and
  their payloads agree on everything but the expiry, which is 15 minutes after the time
  of issuance for the access token and 7 days after it for the refresh token. For the
  payload \<open>{email: i}\<close> the time of issuance is the current second.
\<close>

theorem token_classes_differ_in_expiry_only:
  "(case (generateAccessToken e now u, generateRefreshToken e now u) of
      (Inr (JWS a pl sg), Inr (JWS a' pl' sg')) \<Rightarrow>
        a = HS256 \<and> a' = a \<and>
        (\<exists>key. JWT_SECRET e = Some key \<and> sg = HMAC a key pl \<and> sg' = HMAC a' key pl') \<and>
        signed_with (JWT_SECRET e) (JWS a pl sg) \<and>
        signed_with (JWT_SECRET e) (JWS a' pl' sg') \<and>
        email pl = email u \<and> email pl' = email u \<and>
        iat pl = Some (issued_at u now) \<and> iat pl' = Some (issued_at u now) \<and>
        exp pl = Some (issued_at u now + 15 * 60) \<and>
        exp pl' = Some (issued_at u now + 7 * 24 * 60 * 60) \<and>
        pl' = pl\<lparr>exp := exp pl'\<rparr>
    | (Inl err, Inl err') \<Rightarrow> err' = err
    | _ \<Rightarrow> False)
   \<and> issued_at (email_payload i) now = now div 1000"
proof (cases "truthy (JWT_SECRET e)")
  case False
  then show ?thesis
    by (simp add: generateAccessToken_def generateRefreshToken_def jwt_sign_no_secret
        issued_at_email_payload)
next
  case True
  then obtain key where k: "JWT_SECRET e = Some key" "key \<noteq> []"
    by (cases "JWT_SECRET e") auto
  show ?thesis
  proof (cases "exp u = None")
    case False
    then show ?thesis using True
      by (simp add: generateAccessToken_def generateRefreshToken_def jwt_sign_exp_set
          issued_at_email_payload)
  next
    case noexp: True
    then show ?thesis using k
      by (simp add: generateAccessToken_def generateRefreshToken_def jwt_sign_ok
          expiresIn_15m_def expiresIn_7d_def issued_at_email_payload)
  qed
qed

text \<open>
  At a concrete input: issued at millisecond 1700000000123 for \<open>a@x.com\<close>, the
  access token expires at second 1700000900 and the refresh token at second 1700604800.
\<close>

theorem token_classes_differ_in_expiry_only_witness:
  "generateAccessToken
     \<lparr>JWT_SECRET = Some ''s3cret'', FIREBASE_SERVICE_ACCOUNT = None, PORT = None\<rparr>
     1700000000123 (email_payload (Some ''a@x.com'')) =
     Inr (JWS HS256 \<lparr>email = Some ''a@x.com'', iat = Some 1700000000, exp = Some 1700000900\<rparr>
            (HMAC HS256 ''s3cret''
               \<lparr>email = Some ''a@x.com'', iat = Some 1700000000, exp = Some 1700000900\<rparr>))
   \<and> generateRefreshToken
     \<lparr>JWT_SECRET = Some ''s3cret'', FIREBASE_SERVICE_ACCOUNT = None, PORT = None\<rparr>
     1700000000123 (email_payload (Some ''a@x.com'')) =
     Inr (JWS HS256 \<lparr>email = Some ''a@x.com'', iat = Some 1700000000, exp = Some 1700604800\<rparr>
            (HMAC HS256 ''s3cret''
               \<lparr>email = Some ''a@x.com'', iat = Some 1700000000, exp = Some 1700604800\<rparr>))"
  using token_classes_differ_in_expiry_only
    [where e = "\<lparr>JWT_SECRET = Some ''s3cret'', FIREBASE_SERVICE_ACCOUNT = None, PORT = None\<rparr>"
       and now = 1700000000123 and u = "email_payload (Some ''a@x.com'')"
       and i = "Some ''a@x.com''"]
  by (simp add: generateAccessToken_def generateRefreshToken_def jwt_sign_def
      expiresIn_15m_def expiresIn_7d_def issued_at_def email_payload_def Let_def)

section \<open>Refresh\<close>

lemma generateAccessToken_after_verify:
  assumes "jwt_verify token (JWT_SECRET e) now = Inr decoded"
  shows "generateAccessToken e now (email_payload i) =
           Inr (JWS HS256 \<lparr>email = i, iat = Some (now div 1000),
                            exp = Some (now div 1000 + 15 * 60)\<rparr>
                  (HMAC HS256 (the (JWT_SECRET e))
                     \<lparr>email = i, iat = Some (now div 1000),
                      exp = Some (now div 1000 + 15 * 60)\<rparr>))"
proof -
  from assms have "signed_with (JWT_SECRET e) token"
    by (auto simp add: jwt_verify_Inr)
  then obtain key where "JWT_SECRET e = Some key" "key \<noteq> []"
    by (cases "JWT_SECRET e"; cases token) auto
  then show ?thesis
    by (simp add: generateAccessToken_def jwt_sign_def issued_at_def email_payload_def
        expiresIn_15m_def Let_def)
qed

lemma refresh_verified:
  assumes "cookie_refreshToken req = Some token"
    and "jwt_verify token (JWT_SECRET e) now = Inr decoded"
  shows "refresh e now req =
           json 200 (Json_accessToken
             (JWS HS256 \<lparr>email = email decoded, iat = Some (now div 1000),
                          exp = Some (now div 1000 + 15 * 60)\<rparr>
                (HMAC HS256 (the (JWT_SECRET e))
                   \<lparr>email = email decoded, iat = Some (now div 1000),
                    exp = Some (now div 1000 + 15 * 60)\<rparr>)))"
proof -
  have "token \<noteq> Text []"
    using assms(2) jwt_verify_Text [of "[]" "JWT_SECRET e" now] by auto
  then show ?thesis
    using assms generateAccessToken_after_verify [OF assms(2), of "email decoded"]
    by (simp add: refresh_def)
qed

lemma refresh_rejected:
  assumes "cookie_refreshToken req = Some token" and "token \<noteq> Text []"
    and "jwt_verify token (JWT_SECRET e) now = Inl err"
  shows "refresh e now req = sendStatus 403"
  using assms by (simp add: refresh_def)

lemma refresh_no_token:
  assumes "cookie_refreshToken req = None \<or> cookie_refreshToken req = Some (Text [])"
  shows "refresh e now req = sendStatus 401"
  using assms by (auto simp add: refresh_def)

text \<open>
  Claim C3. For every request to POST /api/refresh: without the cookie
  \<open>refreshToken\<close> the status is 401, and so it is with an empty cookie value, which
  \<open>!token\<close> takes for no token; with a cookie whose value fails verification the
  status is 403, for every failure but that of the empty string, so in particular for an
  invalid signature and for an expired token; with a cookie that verifies the response is 200, its body is the access
  token that \<open>generateAccessToken\<close> mints at that moment for the decoded email, and
  it sets no cookie.
\<close>

theorem refresh_responses:
  "(cookie_refreshToken req = None \<longrightarrow> status (refresh e now req) = 401)
   \<and> (cookie_refreshToken req = Some (Text []) \<longrightarrow> status (refresh e now req) = 401)
   \<and> (\<forall>token err.
         cookie_refreshToken req = Some token \<and>
         jwt_verify token (JWT_SECRET e) now = Inl err \<and>
         err \<noteq> JsonWebTokenError ''jwt must be provided'' \<longrightarrow>
         status (refresh e now req) = 403)
   \<and> (\<forall>token m.
         cookie_refreshToken req = Some token \<and>
         (jwt_verify token (JWT_SECRET e) now = Inl (JsonWebTokenError ''invalid signature'') \<or>
          jwt_verify token (JWT_SECRET e) now = Inl (TokenExpiredError m)) \<longrightarrow>
         status (refresh e now req) = 403)
   \<and> (\<forall>token decoded.
         cookie_refreshToken req = Some token \<and>
         jwt_verify token (JWT_SECRET e) now = Inr decoded \<longrightarrow>
         (\<exists>accessToken.
            generateAccessToken e now (email_payload (email decoded)) = Inr accessToken \<and>
            refresh e now req =
              \<lparr>status = 200, body = Json_accessToken accessToken, set_cookie = []\<rparr>))"
proof (intro conjI allI impI)
  assume "cookie_refreshToken req = None"
  then show "status (refresh e now req) = 401"
    by (simp add: refresh_no_token sendStatus_def)
next
  assume "cookie_refreshToken req = Some (Text [])"
  then show "status (refresh e now req) = 401"
    by (simp add: refresh_no_token sendStatus_def)
next
  fix token err
  assume a: "cookie_refreshToken req = Some token \<and>
         jwt_verify token (JWT_SECRET e) now = Inl err \<and>
         err \<noteq> JsonWebTokenError ''jwt must be provided''"
  then have "token \<noteq> Text []"
    using jwt_verify_must_be_provided [of token "JWT_SECRET e" now] by auto
  with a show "status (refresh e now req) = 403"
    by (simp add: refresh_rejected sendStatus_def)
next
  fix token m
  assume a: "cookie_refreshToken req = Some token \<and>
         (jwt_verify token (JWT_SECRET e) now = Inl (JsonWebTokenError ''invalid signature'') \<or>
          jwt_verify token (JWT_SECRET e) now = Inl (TokenExpiredError m))"
  then have "token \<noteq> Text []"
    using jwt_verify_must_be_provided [of token "JWT_SECRET e" now] by auto
  with a show "status (refresh e now req) = 403"
    by (auto simp add: refresh_rejected sendStatus_def)
next
  fix token decoded
  assume a: "cookie_refreshToken req = Some token \<and>
         jwt_verify token (JWT_SECRET e) now = Inr decoded"
  then show "\<exists>accessToken.
            generateAccessToken e now (email_payload (email decoded)) = Inr accessToken \<and>
            refresh e now req =
              \<lparr>status = 200, body = Json_accessToken accessToken, set_cookie = []\<rparr>"
    using refresh_verified [of req token e now decoded]
      generateAccessToken_after_verify [of token e now decoded "email decoded"]
    by (simp add: json_def)
qed

text \<open>
  At concrete inputs, with the secret \<open>s3cret\<close> at millisecond 1700000500000: no
  cookie gives 401; a refresh token whose payload was changed after signing gives 403; the
  refresh token issued at second 1700000000 gives 200 with a fresh access token and no
  cookie.
\<close>

theorem refresh_responses_witness:
  "status (refresh \<lparr>JWT_SECRET = Some ''s3cret'', FIREBASE_SERVICE_ACCOUNT = None, PORT = None\<rparr>
      1700000500000
      \<lparr>body_email = None, body_password = None, cookie_refreshToken = None,
       bearer_token = None, user = None\<rparr>) = 401
   \<and> status (refresh \<lparr>JWT_SECRET = Some ''s3cret'', FIREBASE_SERVICE_ACCOUNT = None, PORT = None\<rparr>
      1700000500000
      \<lparr>body_email = None, body_password = None,
       cookie_refreshToken = Some
         (JWS HS256 \<lparr>email = Some ''root@x.com'', iat = Some 1700000000, exp = Some 1700604800\<rparr>
            (HMAC HS256 ''s3cret''
               \<lparr>email = Some ''a@x.com'', iat = Some 1700000000, exp = Some 1700604800\<rparr>)),
       bearer_token = None, user = None\<rparr>) = 403
   \<and> refresh \<lparr>JWT_SECRET = Some ''s3cret'', FIREBASE_SERVICE_ACCOUNT = None, PORT = None\<rparr>
      1700000500000
      \<lparr>body_email = None, body_password = None,
       cookie_refreshToken = Some
         (JWS HS256 \<lparr>email = Some ''a@x.com'', iat = Some 1700000000, exp = Some 1700604800\<rparr>
            (HMAC HS256 ''s3cret''
               \<lparr>email = Some ''a@x.com'', iat = Some 1700000000, exp = Some 1700604800\<rparr>)),
       bearer_token = None, user = None\<rparr> =
     \<lparr>status = 200,
      body = Json_accessToken
        (JWS HS256 \<lparr>email = Some ''a@x.com'', iat = Some 1700000500, exp = Some 1700001400\<rparr>
           (HMAC HS256 ''s3cret''
              \<lparr>email = Some ''a@x.com'', iat = Some 1700000500, exp = Some 1700001400\<rparr>)),
      set_cookie = []\<rparr>"
  using refresh_responses
    [where e = "\<lparr>JWT_SECRET = Some ''s3cret'', FIREBASE_SERVICE_ACCOUNT = None, PORT = None\<rparr>"
       and now = 1700000500000
       and req = "\<lparr>body_email = None, body_password = None, cookie_refreshToken = None,
                   bearer_token = None, user = None\<rparr>"]
    refresh_responses
    [where e = "\<lparr>JWT_SECRET = Some ''s3cret'', FIREBASE_SERVICE_ACCOUNT = None, PORT = None\<rparr>"
       and now = 1700000500000
       and req = "\<lparr>body_email = None, body_password = None,
          cookie_refreshToken = Some
            (JWS HS256 \<lparr>email = Some ''root@x.com'', iat = Some 1700000000, exp = Some 1700604800\<rparr>
               (HMAC HS256 ''s3cret''
                  \<lparr>email = Some ''a@x.com'', iat = Some 1700000000, exp = Some 1700604800\<rparr>)),
          bearer_token = None, user = None\<rparr>"]
    refresh_responses
    [where e = "\<lparr>JWT_SECRET = Some ''s3cret'', FIREBASE_SERVICE_ACCOUNT = None, PORT = None\<rparr>"
       and now = 1700000500000
       and req = "\<lparr>body_email = None, body_password = None,
          cookie_refreshToken = Some
            (JWS HS256 \<lparr>email = Some ''a@x.com'', iat = Some 1700000000, exp = Some 1700604800\<rparr>
               (HMAC HS256 ''s3cret''
                  \<lparr>email = Some ''a@x.com'', iat = Some 1700000000, exp = Some 1700604800\<rparr>)),
          bearer_token = None, user = None\<rparr>"]
  by (simp add: jwt_verify_def generateAccessToken_def jwt_sign_def issued_at_def
      email_payload_def expiresIn_15m_def Let_def)

subsection \<open>Which tokens the refresh cookie may hold\<close>


lemma generateRefreshToken_complete:
  assumes "refresh_token_of (JWT_SECRET e) t"
  shows "\<exists>now u. generateRefreshToken e now u = Inr t"
proof -
  from assms obtain pl sg where t: "t = JWS HS256 pl sg"
    by (cases t) auto
  from assms t obtain key where k: "JWT_SECRET e = Some key" "key \<noteq> []"
    and sg: "sg = HMAC HS256 key pl"
    by (cases "JWT_SECRET e") auto
  from assms t obtain ts where ts: "iat pl = Some ts" "exp pl = Some (ts + expiresIn_7d)"
    by (cases "iat pl") auto
  have pl: "pl = \<lparr>email = email pl, iat = Some ts, exp = Some (ts + expiresIn_7d)\<rparr>"
    using ts by (cases pl) simp
  have "generateRefreshToken e (ts * 1000) (email_payload (email pl)) =
          Inr (JWS HS256 \<lparr>email = email pl, iat = Some ts, exp = Some (ts + expiresIn_7d)\<rparr>
                 (HMAC HS256 key
                    \<lparr>email = email pl, iat = Some ts, exp = Some (ts + expiresIn_7d)\<rparr>))"
    using k
    by (simp add: generateRefreshToken_def jwt_sign_def issued_at_def email_payload_def Let_def)
  with pl t sg have "generateRefreshToken e (ts * 1000) (email_payload (email pl)) = Inr t"
    by simp
  then show ?thesis by blast
qed





section \<open>Protected routes\<close>

text \<open>
  Claim C5. For every request to a protected route: without a bearer token the
  middleware rejects with Unauthenticated (401) and the handler, whatever it is, does
  not run; with a bearer token that fails verification, for any error, it rejects with
  Forbidden (403) and the handler does not run; with a token that verifies, the decoded
  payload is attached as \<open>req.user\<close>, the handler runs on that request, and the
  dashboard answers 200 with the authenticated email.
\<close>

theorem protected_route_gate:
  "(bearer_token req = None \<longrightarrow>
      protected e now handler req = Inl Unauthenticated \<and>
      dashboard_route e now req = Inl Unauthenticated \<and> http_status Unauthenticated = 401)
   \<and> (\<forall>token err.
         bearer_token req = Some token \<and> jwt_verify token (JWT_SECRET e) now = Inl err \<longrightarrow>
         protected e now handler req = Inl Forbidden \<and>
         dashboard_route e now req = Inl Forbidden \<and> http_status Forbidden = 403)
   \<and> (\<forall>token decoded.
         bearer_token req = Some token \<and> jwt_verify token (JWT_SECRET e) now = Inr decoded \<longrightarrow>
         auth e now req = Inr (req\<lparr>user := Some decoded\<rparr>) \<and>
         protected e now handler req = Inr (handler (req\<lparr>user := Some decoded\<rparr>)) \<and>
         dashboard_route e now req =
           Inr \<lparr>status = 200,
                body = Json_dashboard ''Welcome to dashboard'' (email decoded),
                set_cookie = []\<rparr>)"
  by (simp add: dashboard_route_def protected_def auth_def dashboard_def json_def)

text \<open>
  At concrete inputs, with the secret \<open>s3cret\<close> at millisecond 1700000500000: no
  bearer token is rejected with 401, an access token that expired at second 1700000400
  with 403, and one that expires at second 1700000900 is answered 200 with \<open>a@x.com\<close>.
\<close>

theorem protected_route_gate_witness:
  "dashboard_route \<lparr>JWT_SECRET = Some ''s3cret'', FIREBASE_SERVICE_ACCOUNT = None, PORT = None\<rparr>
      1700000500000
      \<lparr>body_email = None, body_password = None, cookie_refreshToken = None,
       bearer_token = None, user = None\<rparr> = Inl Unauthenticated
   \<and> dashboard_route \<lparr>JWT_SECRET = Some ''s3cret'', FIREBASE_SERVICE_ACCOUNT = None, PORT = None\<rparr>
      1700000500000
      \<lparr>body_email = None, body_password = None, cookie_refreshToken = None,
       bearer_token = Some
         (JWS HS256 \<lparr>email = Some ''a@x.com'', iat = Some 1699999500, exp = Some 1700000400\<rparr>
            (HMAC HS256 ''s3cret''
               \<lparr>email = Some ''a@x.com'', iat = Some 1699999500, exp = Some 1700000400\<rparr>)),
       user = None\<rparr> = Inl Forbidden
   \<and> dashboard_route \<lparr>JWT_SECRET = Some ''s3cret'', FIREBASE_SERVICE_ACCOUNT = None, PORT = None\<rparr>
      1700000500000
      \<lparr>body_email = None, body_password = None, cookie_refreshToken = None,
       bearer_token = Some
         (JWS HS256 \<lparr>email = Some ''a@x.com'', iat = Some 1700000000, exp = Some 1700000900\<rparr>
            (HMAC HS256 ''s3cret''
               \<lparr>email = Some ''a@x.com'', iat = Some 1700000000, exp = Some 1700000900\<rparr>)),
       user = None\<rparr> =
     Inr \<lparr>status = 200, body = Json_dashboard ''Welcome to dashboard'' (Some ''a@x.com''),
          set_cookie = []\<rparr>"
  using protected_route_gate
    [where e = "\<lparr>JWT_SECRET = Some ''s3cret'', FIREBASE_SERVICE_ACCOUNT = None, PORT = None\<rparr>"
       and now = 1700000500000 and handler = dashboard
       and req = "\<lparr>body_email = None, body_password = None, cookie_refreshToken = None,
                   bearer_token = None, user = None\<rparr>"]
    protected_route_gate
    [where e = "\<lparr>JWT_SECRET = Some ''s3cret'', FIREBASE_SERVICE_ACCOUNT = None, PORT = None\<rparr>"
       and now = 1700000500000 and handler = dashboard
       and req = "\<lparr>body_email = None, body_password = None, cookie_refreshToken = None,
          bearer_token = Some
            (JWS HS256 \<lparr>email = Some ''a@x.com'', iat = Some 1699999500, exp = Some 1700000400\<rparr>
               (HMAC HS256 ''s3cret''
                  \<lparr>email = Some ''a@x.com'', iat = Some 1699999500, exp = Some 1700000400\<rparr>)),
          user = None\<rparr>"]
    protected_route_gate
    [where e = "\<lparr>JWT_SECRET = Some ''s3cret'', FIREBASE_SERVICE_ACCOUNT = None, PORT = None\<rparr>"
       and now = 1700000500000 and handler = dashboard
       and req = "\<lparr>body_email = None, body_password = None, cookie_refreshToken = None,
          bearer_token = Some
            (JWS HS256 \<lparr>email = Some ''a@x.com'', iat = Some 1700000000, exp = Some 1700000900\<rparr>
               (HMAC HS256 ''s3cret''
                  \<lparr>email = Some ''a@x.com'', iat = Some 1700000000, exp = Some 1700000900\<rparr>)),
          user = None\<rparr>"]
  by (simp add: jwt_verify_def)

section \<open>Startup and the signing secret\<close>

text \<open>
  Claim C6, as the spec states it, fails: with \<open>JWT_SECRET\<close> absent and a service
  account that Firebase accepts, the server reaches \<open>app.listen\<close> on the default port.
\<close>

theorem startup_without_secret_counterexample:
  "JWT_SECRET \<lparr>JWT_SECRET = None, FIREBASE_SERVICE_ACCOUNT = Some ''service-account'',
               PORT = None\<rparr> = None
   \<and> server ((=) ''service-account'')
       \<lparr>JWT_SECRET = None, FIREBASE_SERVICE_ACCOUNT = Some ''service-account'', PORT = None\<rparr>
     = Inr (Port_default 5000)"
  by (simp add: server_def firebase_def listen_port_def)

text \<open>
  Claim C6, amended. Startup fails fatally exactly when \<open>FIREBASE_SERVICE_ACCOUNT\<close>
  is absent (or empty) or Firebase does not accept it, and in the first case with the
  error of \<open>firebase.js\<close>; the outcome of startup does not depend on \<open>JWT_SECRET\<close>.
  When \<open>JWT_SECRET\<close> is absent (or empty), every call of \<open>generateAccessToken\<close>
  and of \<open>generateRefreshToken\<close> throws and every verification fails, so no token is
  signed or accepted with an absent secret.
\<close>

theorem startup_and_absent_secret:
  "(\<not> truthy (FIREBASE_SERVICE_ACCOUNT e) \<longrightarrow>
      server cert_ok e = Inl (Error ''FIREBASE_SERVICE_ACCOUNT is missing''))
   \<and> ((\<exists>err. server cert_ok e = Inl err) \<longleftrightarrow>
        \<not> truthy (FIREBASE_SERVICE_ACCOUNT e) \<or>
        (\<exists>serviceAccount. FIREBASE_SERVICE_ACCOUNT e = Some serviceAccount \<and>
                           \<not> cert_ok serviceAccount))
   \<and> ((\<exists>err. server cert_ok (e\<lparr>JWT_SECRET := secret\<rparr>) = Inl err) \<longleftrightarrow>
        (\<exists>err. server cert_ok e = Inl err))
   \<and> (\<not> truthy (JWT_SECRET e) \<longrightarrow>
        (\<exists>err. generateAccessToken e now u = Inl err) \<and>
        (\<exists>err. generateRefreshToken e now u = Inl err) \<and>
        (\<exists>err. jwt_verify t (JWT_SECRET e) now' = Inl err))"
proof -
  have v: "\<exists>err. jwt_verify t (JWT_SECRET e) now' = Inl err" if "\<not> truthy (JWT_SECRET e)"
  proof -
    from that have "\<not> signed_with (JWT_SECRET e) t"
      by (cases "JWT_SECRET e"; cases t) auto
    then show ?thesis
      using jwt_verify_Inr [of t "JWT_SECRET e" now']
      by (cases "jwt_verify t (JWT_SECRET e) now'") auto
  qed
  have s: "(\<exists>err. server cert_ok x = Inl err) \<longleftrightarrow>
        \<not> truthy (FIREBASE_SERVICE_ACCOUNT x) \<or>
        (\<exists>serviceAccount. FIREBASE_SERVICE_ACCOUNT x = Some serviceAccount \<and>
                           \<not> cert_ok serviceAccount)" for x
    by (cases "FIREBASE_SERVICE_ACCOUNT x") (auto simp add: server_def firebase_def)
  have m: "\<not> truthy (FIREBASE_SERVICE_ACCOUNT e) \<longrightarrow>
      server cert_ok e = Inl (Error ''FIREBASE_SERVICE_ACCOUNT is missing'')"
    by (simp add: server_def firebase_def)
  have j: "(\<exists>err. server cert_ok (e\<lparr>JWT_SECRET := secret\<rparr>) = Inl err) \<longleftrightarrow>
        (\<exists>err. server cert_ok e = Inl err)"
    by (simp add: s)
  show ?thesis
    using v s [of e] m j
    by (simp add: generateAccessToken_def generateRefreshToken_def jwt_sign_no_secret)
qed

text \<open>
  At concrete inputs: without \<open>FIREBASE_SERVICE_ACCOUNT\<close> startup throws, although
  \<open>JWT_SECRET\<close> is set; with it and without \<open>JWT_SECRET\<close>, signing throws.
\<close>

theorem startup_and_absent_secret_witness:
  "server ((=) ''service-account'')
     \<lparr>JWT_SECRET = Some ''s3cret'', FIREBASE_SERVICE_ACCOUNT = None, PORT = None\<rparr>
     = Inl (Error ''FIREBASE_SERVICE_ACCOUNT is missing'')
   \<and> generateAccessToken
       \<lparr>JWT_SECRET = None, FIREBASE_SERVICE_ACCOUNT = Some ''service-account'', PORT = None\<rparr>
       1700000000123 (email_payload (Some ''a@x.com''))
     = Inl (Error ''secretOrPrivateKey must have a value'')"
  using startup_and_absent_secret
    [where e = "\<lparr>JWT_SECRET = Some ''s3cret'', FIREBASE_SERVICE_ACCOUNT = None, PORT = None\<rparr>"
       and cert_ok = "(=) ''service-account''"]
    startup_and_absent_secret
    [where e = "\<lparr>JWT_SECRET = None, FIREBASE_SERVICE_ACCOUNT = Some ''service-account'',
                 PORT = None\<rparr>"
       and now = 1700000000123 and u = "email_payload (Some ''a@x.com'')"]
  by (simp add: generateAccessToken_def jwt_sign_def)

section \<open>Login and registration\<close>

lemma generate_tokens_with_secret:
  assumes "truthy (JWT_SECRET e)"
  shows "generateAccessToken e now (email_payload i) =
           Inr (JWS HS256 \<lparr>email = i, iat = Some (now div 1000),
                            exp = Some (now div 1000 + 15 * 60)\<rparr>
                  (HMAC HS256 (the (JWT_SECRET e))
                     \<lparr>email = i, iat = Some (now div 1000),
                      exp = Some (now div 1000 + 15 * 60)\<rparr>))"
    and "generateRefreshToken e now (email_payload i) =
           Inr (JWS HS256 \<lparr>email = i, iat = Some (now div 1000),
                            exp = Some (now div 1000 + 7 * 24 * 60 * 60)\<rparr>
                  (HMAC HS256 (the (JWT_SECRET e))
                     \<lparr>email = i, iat = Some (now div 1000),
                      exp = Some (now div 1000 + 7 * 24 * 60 * 60)\<rparr>))"
proof -
  from assms obtain key where "JWT_SECRET e = Some key" "key \<noteq> []"
    by (cases "JWT_SECRET e") auto
  then show "generateAccessToken e now (email_payload i) =
           Inr (JWS HS256 \<lparr>email = i, iat = Some (now div 1000),
                            exp = Some (now div 1000 + 15 * 60)\<rparr>
                  (HMAC HS256 (the (JWT_SECRET e))
                     \<lparr>email = i, iat = Some (now div 1000),
                      exp = Some (now div 1000 + 15 * 60)\<rparr>))"
    and "generateRefreshToken e now (email_payload i) =
           Inr (JWS HS256 \<lparr>email = i, iat = Some (now div 1000),
                            exp = Some (now div 1000 + 7 * 24 * 60 * 60)\<rparr>
                  (HMAC HS256 (the (JWT_SECRET e))
                     \<lparr>email = i, iat = Some (now div 1000),
                      exp = Some (now div 1000 + 7 * 24 * 60 * 60)\<rparr>))"
    by (simp_all add: generateAccessToken_def generateRefreshToken_def jwt_sign_def
        issued_at_def email_payload_def expiresIn_15m_def expiresIn_7d_def Let_def)
qed

text \<open>
  Claim C8. For every request to POST /api/login that carries an email and a password,
  with the Credential Store reachable: when the store has a document with that email,
  \<open>bcrypt.compare\<close> accepts the password against the hash of the first such
  document, and the signing secret is set, the response is 200, its body is an access
  token and it sets one cookie, named \<open>refreshToken\<close>, holding a refresh token, HTTP-only,
  secure, with \<open>sameSite\<close> none and a maximal age of 7 days in milliseconds; when the
  store has no document with that email, or \<open>bcrypt.compare\<close> rejects the password,
  the response is 400 with the message \<open>Invalid credentials\<close> and sets no cookie.
\<close>

theorem login_responses:
  assumes "reachable db" and "body_email req = Some em" and "body_password req = Some pw"
  shows
    "(\<forall>found rest.
        filter (\<lambda>d. doc_email d = em) (map snd (users_collection db)) = found # rest \<and>
        compare bcrypt pw (doc_password found) \<and> truthy (JWT_SECRET e) \<longrightarrow>
        (\<exists>accessToken refreshToken.
           generateAccessToken e now (email_payload (Some em)) = Inr accessToken \<and>
           generateRefreshToken e now (email_payload (Some em)) = Inr refreshToken \<and>
           login bcrypt e now db req =
             \<lparr>status = 200, body = Json_accessToken accessToken,
              set_cookie =
                [(''refreshToken'', refreshToken,
                  \<lparr>httpOnly = True, secure = True, sameSite = ''none'',
                   maxAge = Some (7 * 24 * 60 * 60 * 1000)\<rparr>)]\<rparr>))
     \<and> (filter (\<lambda>d. doc_email d = em) (map snd (users_collection db)) = [] \<longrightarrow>
          login bcrypt e now db req =
            \<lparr>status = 400, body = Json_msg ''Invalid credentials'', set_cookie = []\<rparr>)
     \<and> (\<forall>found rest.
          filter (\<lambda>d. doc_email d = em) (map snd (users_collection db)) = found # rest \<and>
          \<not> compare bcrypt pw (doc_password found) \<longrightarrow>
          login bcrypt e now db req =
            \<lparr>status = 400, body = Json_msg ''Invalid credentials'', set_cookie = []\<rparr>)"
proof (intro conjI allI impI)
  fix found rest
  assume a: "filter (\<lambda>d. doc_email d = em) (map snd (users_collection db)) = found # rest \<and>
        compare bcrypt pw (doc_password found) \<and> truthy (JWT_SECRET e)"
  then show "\<exists>accessToken refreshToken.
           generateAccessToken e now (email_payload (Some em)) = Inr accessToken \<and>
           generateRefreshToken e now (email_payload (Some em)) = Inr refreshToken \<and>
           login bcrypt e now db req =
             \<lparr>status = 200, body = Json_accessToken accessToken,
              set_cookie =
                [(''refreshToken'', refreshToken,
                  \<lparr>httpOnly = True, secure = True, sameSite = ''none'',
                   maxAge = Some (7 * 24 * 60 * 60 * 1000)\<rparr>)]\<rparr>"
    using assms generate_tokens_with_secret [of e now "Some em"]
    by (simp add: login_def where_email_def bcrypt_compare_def refresh_cookie_options_def)
next
  assume "filter (\<lambda>d. doc_email d = em) (map snd (users_collection db)) = []"
  then show "login bcrypt e now db req =
            \<lparr>status = 400, body = Json_msg ''Invalid credentials'', set_cookie = []\<rparr>"
    using assms by (simp add: login_def where_email_def json_def)
next
  fix found rest
  assume "filter (\<lambda>d. doc_email d = em) (map snd (users_collection db)) = found # rest \<and>
          \<not> compare bcrypt pw (doc_password found)"
  then show "login bcrypt e now db req =
            \<lparr>status = 400, body = Json_msg ''Invalid credentials'', set_cookie = []\<rparr>"
    using assms by (simp add: login_def where_email_def bcrypt_compare_def json_def)
qed

text \<open>
  At concrete inputs, with a password verifier that prefixes the password: the store
  holds \<open>a@x.com\<close> with the hash of \<open>pw1\<close>; logging in with \<open>pw1\<close> is answered
  200 with both tokens, with \<open>pw2\<close> 400, and as \<open>b@x.com\<close> 400.
\<close>

theorem login_responses_witness:
  "login \<lparr>hash = (\<lambda>pw rounds. ''$2a$'' @ pw), compare = (\<lambda>pw h. h = ''$2a$'' @ pw)\<rparr>
     \<lparr>JWT_SECRET = Some ''s3cret'', FIREBASE_SERVICE_ACCOUNT = None, PORT = None\<rparr>
     1700000000123
     \<lparr>users_collection =
        [(''a@x.com'', \<lparr>doc_email = ''a@x.com'', doc_password = ''$2a$pw1'',
                        doc_role = ''client'', doc_status = ''active'', doc_createdAt = 5\<rparr>)],
      reachable = True\<rparr>
     \<lparr>body_email = Some ''a@x.com'', body_password = Some ''pw1'',
      cookie_refreshToken = None, bearer_token = None, user = None\<rparr> =
   \<lparr>status = 200,
    body = Json_accessToken
      (JWS HS256 \<lparr>email = Some ''a@x.com'', iat = Some 1700000000, exp = Some 1700000900\<rparr>
         (HMAC HS256 ''s3cret''
            \<lparr>email = Some ''a@x.com'', iat = Some 1700000000, exp = Some 1700000900\<rparr>)),
    set_cookie =
      [(''refreshToken'',
        JWS HS256 \<lparr>email = Some ''a@x.com'', iat = Some 1700000000, exp = Some 1700604800\<rparr>
          (HMAC HS256 ''s3cret''
             \<lparr>email = Some ''a@x.com'', iat = Some 1700000000, exp = Some 1700604800\<rparr>),
        \<lparr>httpOnly = True, secure = True, sameSite = ''none'', maxAge = Some 604800000\<rparr>)]\<rparr>
   \<and> login \<lparr>hash = (\<lambda>pw rounds. ''$2a$'' @ pw), compare = (\<lambda>pw h. h = ''$2a$'' @ pw)\<rparr>
     \<lparr>JWT_SECRET = Some ''s3cret'', FIREBASE_SERVICE_ACCOUNT = None, PORT = None\<rparr>
     1700000000123
     \<lparr>users_collection =
        [(''a@x.com'', \<lparr>doc_email = ''a@x.com'', doc_password = ''$2a$pw1'',
                        doc_role = ''client'', doc_status = ''active'', doc_createdAt = 5\<rparr>)],
      reachable = True\<rparr>
     \<lparr>body_email = Some ''a@x.com'', body_password = Some ''pw2'',
      cookie_refreshToken = None, bearer_token = None, user = None\<rparr> =
   \<lparr>status = 400, body = Json_msg ''Invalid credentials'', set_cookie = []\<rparr>
   \<and> login \<lparr>hash = (\<lambda>pw rounds. ''$2a$'' @ pw), compare = (\<lambda>pw h. h = ''$2a$'' @ pw)\<rparr>
     \<lparr>JWT_SECRET = Some ''s3cret'', FIREBASE_SERVICE_ACCOUNT = None, PORT = None\<rparr>
     1700000000123
     \<lparr>users_collection =
        [(''a@x.com'', \<lparr>doc_email = ''a@x.com'', doc_password = ''$2a$pw1'',
                        doc_role = ''client'', doc_status = ''active'', doc_createdAt = 5\<rparr>)],
      reachable = True\<rparr>
     \<lparr>body_email = Some ''b@x.com'', body_password = Some ''pw1'',
      cookie_refreshToken = None, bearer_token = None, user = None\<rparr> =
   \<lparr>status = 400, body = Json_msg ''Invalid credentials'', set_cookie = []\<rparr>"
  using login_responses
    [where bcrypt = "\<lparr>hash = (\<lambda>pw rounds. ''$2a$'' @ pw), compare = (\<lambda>pw h. h = ''$2a$'' @ pw)\<rparr>"
       and e = "\<lparr>JWT_SECRET = Some ''s3cret'', FIREBASE_SERVICE_ACCOUNT = None, PORT = None\<rparr>"
       and now = 1700000000123
       and db = "\<lparr>users_collection =
          [(''a@x.com'', \<lparr>doc_email = ''a@x.com'', doc_password = ''$2a$pw1'',
                          doc_role = ''client'', doc_status = ''active'', doc_createdAt = 5\<rparr>)],
          reachable = True\<rparr>"
       and req = "\<lparr>body_email = Some ''a@x.com'', body_password = Some ''pw1'',
                   cookie_refreshToken = None, bearer_token = None, user = None\<rparr>"
       and em = "''a@x.com''" and pw = "''pw1''"]
    login_responses
    [where bcrypt = "\<lparr>hash = (\<lambda>pw rounds. ''$2a$'' @ pw), compare = (\<lambda>pw h. h = ''$2a$'' @ pw)\<rparr>"
       and e = "\<lparr>JWT_SECRET = Some ''s3cret'', FIREBASE_SERVICE_ACCOUNT = None, PORT = None\<rparr>"
       and now = 1700000000123
       and db = "\<lparr>users_collection =
          [(''a@x.com'', \<lparr>doc_email = ''a@x.com'', doc_password = ''$2a$pw1'',
                          doc_role = ''client'', doc_status = ''active'', doc_createdAt = 5\<rparr>)],
          reachable = True\<rparr>"
       and req = "\<lparr>body_email = Some ''a@x.com'', body_password = Some ''pw2'',
                   cookie_refreshToken = None, bearer_token = None, user = None\<rparr>"
       and em = "''a@x.com''" and pw = "''pw2''"]
    login_responses
    [where bcrypt = "\<lparr>hash = (\<lambda>pw rounds. ''$2a$'' @ pw), compare = (\<lambda>pw h. h = ''$2a$'' @ pw)\<rparr>"
       and e = "\<lparr>JWT_SECRET = Some ''s3cret'', FIREBASE_SERVICE_ACCOUNT = None, PORT = None\<rparr>"
       and now = 1700000000123
       and db = "\<lparr>users_collection =
          [(''a@x.com'', \<lparr>doc_email = ''a@x.com'', doc_password = ''$2a$pw1'',
                          doc_role = ''client'', doc_status = ''active'', doc_createdAt = 5\<rparr>)],
          reachable = True\<rparr>"
       and req = "\<lparr>body_email = Some ''b@x.com'', body_password = Some ''pw1'',
                   cookie_refreshToken = None, bearer_token = None, user = None\<rparr>"
       and em = "''b@x.com''" and pw = "''pw1''"]
  by (simp add: generateAccessToken_def generateRefreshToken_def jwt_sign_def issued_at_def
      email_payload_def expiresIn_15m_def expiresIn_7d_def Let_def)

lemma where_email_reachable:
  "reachable db \<Longrightarrow>
   where_email db (Some v) = Inr (filter (\<lambda>d. doc_email d = v) (map snd (users_collection db)))"
  by (simp add: where_email_def)

text \<open>
  Claim C9. For every request to POST /api/register that carries an email and a
  password, with the Credential Store reachable: when no document of the store has that
  email, the response is 200 with the message \<open>Registered successfully\<close> and the store
  afterwards holds, under the email as its id, the document with that email, the hash
  of the password, role \<open>client\<close>, status \<open>active\<close> and the time of creation, every
  other id being as before; when a document with that email exists, the response is 400
  with the message \<open>User exists\<close> and the store is unchanged.
\<close>

theorem register_responses:
  assumes "reachable db" and "body_email req = Some em" and "body_password req = Some pw"
  shows
    "((\<forall>d \<in> set (map snd (users_collection db)). doc_email d \<noteq> em) \<longrightarrow>
        (\<exists>db'.
           register bcrypt now db req =
             (\<lparr>status = 200, body = Json_msg ''Registered successfully'', set_cookie = []\<rparr>, db') \<and>
           map_of (users_collection db') em =
             Some \<lparr>doc_email = em, doc_password = hash bcrypt pw 10, doc_role = ''client'',
                   doc_status = ''active'', doc_createdAt = now\<rparr> \<and>
           (\<exists>d \<in> set (map snd (users_collection db')). doc_email d = em) \<and>
           (\<forall>k. k \<noteq> em \<longrightarrow> map_of (users_collection db') k = map_of (users_collection db) k)))
     \<and> ((\<exists>d \<in> set (map snd (users_collection db)). doc_email d = em) \<longrightarrow>
          register bcrypt now db req =
            (\<lparr>status = 400, body = Json_msg ''User exists'', set_cookie = []\<rparr>, db))"
proof (intro conjI impI)
  let ?doc = "\<lparr>doc_email = em, doc_password = hash bcrypt pw 10, doc_role = ''client'',
               doc_status = ''active'', doc_createdAt = now\<rparr>"
  let ?db' = "db\<lparr>users_collection := AList.update em ?doc (users_collection db)\<rparr>"
  assume none: "\<forall>d \<in> set (map snd (users_collection db)). doc_email d \<noteq> em"
  then have "filter (\<lambda>d. doc_email d = em) (map snd (users_collection db)) = []"
    by (simp add: filter_empty_conv)
  then have r: "register bcrypt now db req =
      (\<lparr>status = 200, body = Json_msg ''Registered successfully'', set_cookie = []\<rparr>, ?db')"
    using assms
    by (simp add: register_def where_email_reachable bcrypt_hash_def doc_set_def json_def)
  have m: "map_of (users_collection ?db') em = Some ?doc"
    by (simp add: update_conv')
  then have "(em, ?doc) \<in> set (users_collection ?db')"
    by (rule map_of_SomeD)
  then have "?doc \<in> set (map snd (users_collection ?db'))"
    by force
  then have ex: "\<exists>d \<in> set (map snd (users_collection ?db')). doc_email d = em"
    by (intro bexI [of _ ?doc]) simp_all
  have others: "\<forall>k. k \<noteq> em \<longrightarrow>
      map_of (users_collection ?db') k = map_of (users_collection db) k"
    by (simp add: update_conv')
  from r m ex others
  show "\<exists>db'.
           register bcrypt now db req =
             (\<lparr>status = 200, body = Json_msg ''Registered successfully'', set_cookie = []\<rparr>, db') \<and>
           map_of (users_collection db') em = Some ?doc \<and>
           (\<exists>d \<in> set (map snd (users_collection db')). doc_email d = em) \<and>
           (\<forall>k. k \<noteq> em \<longrightarrow> map_of (users_collection db') k = map_of (users_collection db) k)"
    by (intro exI [of _ ?db']) (intro conjI)
next
  assume "\<exists>d \<in> set (map snd (users_collection db)). doc_email d = em"
  then have "filter (\<lambda>d. doc_email d = em) (map snd (users_collection db)) \<noteq> []"
    by (simp add: filter_empty_conv)
  then show "register bcrypt now db req =
            (\<lparr>status = 400, body = Json_msg ''User exists'', set_cookie = []\<rparr>, db)"
    using assms by (simp add: register_def where_email_reachable json_def)
qed

text \<open>
  The scenario of the spec: registering \<open>a@x.com\<close> with \<open>pw1\<close> in an empty store is
  answered 200 and creates the document; registering the same email again, in the store
  that results, is answered 400 and leaves the store as it is.
\<close>

theorem register_responses_witness:
  "register \<lparr>hash = (\<lambda>pw rounds. ''$2a$'' @ pw), compare = (\<lambda>pw h. h = ''$2a$'' @ pw)\<rparr>
     1700000000123 \<lparr>users_collection = [], reachable = True\<rparr>
     \<lparr>body_email = Some ''a@x.com'', body_password = Some ''pw1'',
      cookie_refreshToken = None, bearer_token = None, user = None\<rparr> =
   (\<lparr>status = 200, body = Json_msg ''Registered successfully'', set_cookie = []\<rparr>,
    \<lparr>users_collection =
       [(''a@x.com'', \<lparr>doc_email = ''a@x.com'', doc_password = ''$2a$pw1'',
                       doc_role = ''client'', doc_status = ''active'',
                       doc_createdAt = 1700000000123\<rparr>)],
     reachable = True\<rparr>)
   \<and> register \<lparr>hash = (\<lambda>pw rounds. ''$2a$'' @ pw), compare = (\<lambda>pw h. h = ''$2a$'' @ pw)\<rparr>
     1700000000999
     \<lparr>users_collection =
       [(''a@x.com'', \<lparr>doc_email = ''a@x.com'', doc_password = ''$2a$pw1'',
                       doc_role = ''client'', doc_status = ''active'',
                       doc_createdAt = 1700000000123\<rparr>)],
      reachable = True\<rparr>
     \<lparr>body_email = Some ''a@x.com'', body_password = Some ''pw1'',
      cookie_refreshToken = None, bearer_token = None, user = None\<rparr> =
   (\<lparr>status = 400, body = Json_msg ''User exists'', set_cookie = []\<rparr>,
    \<lparr>users_collection =
       [(''a@x.com'', \<lparr>doc_email = ''a@x.com'', doc_password = ''$2a$pw1'',
                       doc_role = ''client'', doc_status = ''active'',
                       doc_createdAt = 1700000000123\<rparr>)],
     reachable = True\<rparr>)"
  using register_responses
    [where bcrypt = "\<lparr>hash = (\<lambda>pw rounds. ''$2a$'' @ pw), compare = (\<lambda>pw h. h = ''$2a$'' @ pw)\<rparr>"
       and now = 1700000000123 and db = "\<lparr>users_collection = [], reachable = True\<rparr>"
       and req = "\<lparr>body_email = Some ''a@x.com'', body_password = Some ''pw1'',
                   cookie_refreshToken = None, bearer_token = None, user = None\<rparr>"
       and em = "''a@x.com''" and pw = "''pw1''"]
    register_responses
    [where bcrypt = "\<lparr>hash = (\<lambda>pw rounds. ''$2a$'' @ pw), compare = (\<lambda>pw h. h = ''$2a$'' @ pw)\<rparr>"
       and now = 1700000000999
       and db = "\<lparr>users_collection =
         [(''a@x.com'', \<lparr>doc_email = ''a@x.com'', doc_password = ''$2a$pw1'',
                         doc_role = ''client'', doc_status = ''active'',
                         doc_createdAt = 1700000000123\<rparr>)],
         reachable = True\<rparr>"
       and req = "\<lparr>body_email = Some ''a@x.com'', body_password = Some ''pw1'',
                   cookie_refreshToken = None, bearer_token = None, user = None\<rparr>"
       and em = "''a@x.com''" and pw = "''pw1''"]
  by (simp add: register_def where_email_def bcrypt_hash_def doc_set_def json_def)

section \<open>Statistics\<close>

text \<open>The counters stay ordered, \<open>0 \<le> verified \<le> total\<close>, through every user and every page.\<close>

lemma count_user_inv:
  "0 \<le> snd c \<and> snd c \<le> fst c \<Longrightarrow>
   0 \<le> snd (count_user u c) \<and> snd (count_user u c) \<le> fst (count_user u c)"
  by (cases c) auto

lemma fold_count_user_inv:
  "0 \<le> snd c \<and> snd c \<le> fst c \<Longrightarrow>
   0 \<le> snd (fold count_user us c) \<and> snd (fold count_user us c) \<le> fst (fold count_user us c)"
proof (induction us arbitrary: c)
  case Nil
  then show ?case by simp
next
  case (Cons u us)
  then show ?case using count_user_inv [of c u] by simp
qed

lemma stats_loop_inv:
  assumes "stats_loop listUsers tok c = Some (Inr r)"
    and "0 \<le> snd c \<and> snd c \<le> fst c"
  shows "0 \<le> snd r \<and> snd r \<le> fst r"
proof -
  have "(0 \<le> snd c \<and> snd c \<le> fst c) \<longrightarrow>
        (case y of Inl err \<Rightarrow> True | Inr r \<Rightarrow> 0 \<le> snd r \<and> snd r \<le> fst r)"
    if "stats_loop listUsers tok c = Some y" for y
    using that
  proof (induction rule: stats_loop.raw_induct [rotated 1, consumes 1, case_names step])
    case (step loop listUsers nextPageToken counters y)
    show ?case
    proof (cases "listUsers 1000 nextPageToken")
      case (Inl err)
      with step(2) show ?thesis by auto
    next
      case (Inr result)
      show ?thesis
      proof (cases "truthy (pageToken result)")
        case True
        with step(2) Inr have
          "loop listUsers (pageToken result) (fold count_user (users result) counters) = Some y"
          by simp
        from step(1) [OF this] show ?thesis
          using fold_count_user_inv [of counters "users result"] by simp
      next
        case False
        with step(2) Inr have "y = Inr (fold count_user (users result) counters)" by simp
        then show ?thesis
          using fold_count_user_inv [of counters "users result"] by simp
      qed
    qed
  qed
  from this [OF assms(1)] assms(2) show ?thesis by simp
qed

lemma stats_response_200:
  assumes "status (stats_response r) = 200"
  shows "\<exists>n_total n_verified.
           r = Inr (n_total, n_verified) \<and>
           stats_response r =
             \<lparr>status = 200,
              body = Json_stats \<lparr>totalUsers = n_total, verifiedUsers = n_verified,
                                 unverifiedUsers = n_total - n_verified,
                                 systemStatus = ''Active'', security = ''Protected''\<rparr>,
              set_cookie = []\<rparr>"
  using assms by (cases r) (auto simp add: stats_response_def json_def)

lemma stats_200:
  assumes "stats listUsers = Some res" and "status res = 200"
  shows "\<exists>sb. body res = Json_stats sb \<and>
              unverifiedUsers sb = totalUsers sb - verifiedUsers sb \<and>
              0 \<le> verifiedUsers sb \<and> verifiedUsers sb \<le> totalUsers sb"
proof -
  from assms(1) obtain r where l: "stats_loop listUsers None (0, 0) = Some r"
    and res: "res = stats_response r"
    by (auto simp add: stats_def)
  from stats_response_200 [of r] assms(2) res obtain n_total n_verified
    where r: "r = Inr (n_total, n_verified)"
      and b: "res = \<lparr>status = 200,
              body = Json_stats \<lparr>totalUsers = n_total, verifiedUsers = n_verified,
                                 unverifiedUsers = n_total - n_verified,
                                 systemStatus = ''Active'', security = ''Protected''\<rparr>,
              set_cookie = []\<rparr>"
    by auto
  from stats_loop_inv [of listUsers None "(0, 0)" "(n_total, n_verified)"] l r
  have "0 \<le> n_verified \<and> n_verified \<le> n_total" by simp
  with b show ?thesis by simp
qed

text \<open>
  Claim C10. Whatever pages \<open>listUsers\<close> returns, whenever GET /api/stats answers
  200, in its unprotected and in its protected revision, the body reports counts with
  \<open>unverifiedUsers = totalUsers - verifiedUsers\<close> and
  \<open>0 \<le> verifiedUsers \<le> totalUsers\<close>. The counters are JavaScript numbers, exact
  integers for any number of users a directory can hold.
\<close>

theorem stats_counts_consistent:
  "(\<forall>res.
      stats listUsers = Some res \<and> status res = 200 \<longrightarrow>
      (\<exists>sb. body res = Json_stats sb \<and>
            unverifiedUsers sb = totalUsers sb - verifiedUsers sb \<and>
            0 \<le> verifiedUsers sb \<and> verifiedUsers sb \<le> totalUsers sb))
   \<and> (\<forall>res.
      stats_protected e now listUsers req = Some (Inr res) \<and> status res = 200 \<longrightarrow>
      (\<exists>sb. body res = Json_stats sb \<and>
            unverifiedUsers sb = totalUsers sb - verifiedUsers sb \<and>
            0 \<le> verifiedUsers sb \<and> verifiedUsers sb \<le> totalUsers sb))"
proof (intro conjI allI impI)
  fix res
  assume "stats listUsers = Some res \<and> status res = 200"
  then show "\<exists>sb. body res = Json_stats sb \<and>
            unverifiedUsers sb = totalUsers sb - verifiedUsers sb \<and>
            0 \<le> verifiedUsers sb \<and> verifiedUsers sb \<le> totalUsers sb"
    using stats_200 [of listUsers res] by simp
next
  fix res
  assume a: "stats_protected e now listUsers req = Some (Inr res) \<and> status res = 200"
  then have "stats listUsers = Some res"
    by (cases "auth e now req") (auto simp add: stats_protected_def)
  with a show "\<exists>sb. body res = Json_stats sb \<and>
            unverifiedUsers sb = totalUsers sb - verifiedUsers sb \<and>
            0 \<le> verifiedUsers sb \<and> verifiedUsers sb \<le> totalUsers sb"
    using stats_200 [of listUsers res] by simp
qed

text \<open>
  A directory of three users on two pages: the first call returns two users, one of
  them verified, and the page token \<open>p2\<close>; the call with \<open>p2\<close> returns one verified
  user and no token. The loop ends and the handler answers 200 with 3, 2 and 1.
\<close>

lemma stats_two_pages:
  "stats (\<lambda>maxResults tok.
            if tok = None
            then Inr \<lparr>users = [\<lparr>emailVerified = True\<rparr>, \<lparr>emailVerified = False\<rparr>],
                      pageToken = Some ''p2''\<rparr>
            else Inr \<lparr>users = [\<lparr>emailVerified = True\<rparr>], pageToken = None\<rparr>) =
   Some \<lparr>status = 200,
         body = Json_stats \<lparr>totalUsers = 3, verifiedUsers = 2, unverifiedUsers = 1,
                            systemStatus = ''Active'', security = ''Protected''\<rparr>,
         set_cookie = []\<rparr>"
  unfolding stats_def
  apply (subst stats_loop.simps)
  apply simp
  apply (subst stats_loop.simps)
  apply (simp add: stats_response_def json_def)
  done

theorem stats_counts_consistent_witness:
  "\<exists>res sb.
     stats (\<lambda>maxResults tok.
              if tok = None
              then Inr \<lparr>users = [\<lparr>emailVerified = True\<rparr>, \<lparr>emailVerified = False\<rparr>],
                        pageToken = Some ''p2''\<rparr>
              else Inr \<lparr>users = [\<lparr>emailVerified = True\<rparr>], pageToken = None\<rparr>) = Some res
     \<and> status res = 200 \<and> body res = Json_stats sb
     \<and> totalUsers sb = 3 \<and> verifiedUsers sb = 2 \<and> unverifiedUsers sb = 1
     \<and> unverifiedUsers sb = totalUsers sb - verifiedUsers sb
     \<and> 0 \<le> verifiedUsers sb \<and> verifiedUsers sb \<le> totalUsers sb"
  using stats_counts_consistent
    [where listUsers = "\<lambda>maxResults tok.
              if tok = None
              then Inr \<lparr>users = [\<lparr>emailVerified = True\<rparr>, \<lparr>emailVerified = False\<rparr>],
                        pageToken = Some ''p2''\<rparr>
              else Inr \<lparr>users = [\<lparr>emailVerified = True\<rparr>], pageToken = None\<rparr>"]
    stats_two_pages
  by simp

end
